theory Spec2Isabelle
  imports Complex_Main
begin

section \<open>The group endpoints of the rdfm management server\<close>

text \<open>
  The development embeds \<^verbatim>\<open>server/src/api/v1/groups.py\<close>: the seven request handlers
  of the groups blueprint and \<^verbatim>\<open>model_to_schema\<close>. The handlers are translated from
  the source. Everything they call on \<^verbatim>\<open>server.instance._groups_db\<close>, the policy
  compiler \<^verbatim>\<open>update.policy.create\<close>, \<^verbatim>\<open>api_error\<close> and the schema classes live in
  other modules; the store operations are modelled from the specification (each such
  definition says so), the policy compiler, the serialiser \<^verbatim>\<open>Group.Schema().dump\<close> and the
  value of \<^verbatim>\<open>request.json\<close> are parameters of the handlers.

  The model is sequential: one handler runs at a time against the store, which is passed
  in and returned. The decorators in front of the handlers (authorisation, request schema
  deserialisation) have run already when a handler body starts; a handler of the model
  receives the deserialised request.
\<close>

subsection \<open>Data\<close>

type_synonym datetime = int

text \<open>A decoded JSON document, as \<^verbatim>\<open>request.json\<close> yields it.\<close>

datatype json =
    JNull
  | JBool bool
  | JInt int
  | JFloat real
  | JString string
  | JArray "json list"
  | JObject "(string \<times> json) list"

text \<open>
  Python exceptions, by the only distinction the handlers make: the class
  \<^verbatim>\<open>RuntimeError\<close> (with its subclasses), which \<^verbatim>\<open>except RuntimeError\<close> catches, and
  every other subclass of \<^verbatim>\<open>Exception\<close>, which only \<^verbatim>\<open>except Exception\<close> catches.
  The string is \<^verbatim>\<open>str(e)\<close>.
\<close>

datatype exn = RuntimeError string | OtherException string

text \<open>
  \<^verbatim>\<open>models.group.Group\<close>: the attributes the handlers read and write. The package list
  and the device list are no attributes of it.
\<close>

record group =
  g_id :: int
  created :: datetime
  info :: json
  policy :: string
  priority :: int

text \<open>A device row: the identifier and the optional reference to one group.\<close>

record device =
  d_id :: int
  d_group_id :: "int option"

text \<open>
  The store behind \<^verbatim>\<open>server.instance._groups_db\<close>: the group table, the device table,
  the identifiers of the known packages, and the package assignments as rows
  (group, package) in assignment order.
\<close>

record store =
  groups_tbl :: "group list"
  devices_tbl :: "device list"
  packages_tbl :: "int list"
  group_packages_tbl :: "(int \<times> int) list"

text \<open>\<^verbatim>\<open>rdfm.schema.v1.groups.Group\<close>, with the six fields \<^verbatim>\<open>model_to_schema\<close> fills.\<close>

record group_schema =
  s_id :: int
  s_created :: datetime
  s_packages :: "int list"
  s_devices :: "int list"
  s_metadata :: json
  s_policy :: string

text \<open>The request schemas: the fields the handlers read.\<close>

record AssignDeviceRequest =
  add :: "int list"
  remove :: "int list"

record AssignPackageRequest =
  packages :: "int list"

text \<open>
  A handler returns a body and a status. The body of a group response is what
  \<^verbatim>\<open>Group.Schema().dump\<close> returns for the schema object (or for each object of a list):
  the six fields as serialised.
\<close>

datatype body =
    ErrorBody string
  | EmptyBody
  | GroupBody group_schema
  | GroupsBody "group_schema list"

type_synonym response = "body \<times> nat"

definition api_error :: "string \<Rightarrow> nat \<Rightarrow> response" where
  "api_error msg code = (ErrorBody msg, code)"

definition GROUP_DEFAULT_PRIORITY :: int where
  "GROUP_DEFAULT_PRIORITY = 25"

subsection \<open>The store operations\<close>

text \<open>
  Modelled from the spec: \<^verbatim>\<open>_groups_db.fetch_all\<close> is not in the source; the Group
  Registry owns the group records, and this returns all of them.
\<close>

definition db_fetch_all :: "store \<Rightarrow> group list" where
  "db_fetch_all st = groups_tbl st"

text \<open>
  Modelled from the spec: \<^verbatim>\<open>_groups_db.fetch_one\<close> is not in the source; it resolves a
  group identifier to the group record, or to nothing when no group has it.
\<close>

definition db_fetch_one :: "store \<Rightarrow> int \<Rightarrow> group option" where
  "db_fetch_one st identifier = find (\<lambda>g. g_id g = identifier) (groups_tbl st)"

text \<open>
  Modelled from the spec: \<^verbatim>\<open>_groups_db.fetch_assigned\<close> is not in the source; the derived
  view \<open>devices\<close> is "the set of Device ids whose group_id equals this group's id",
  computed from the Device Registry.
\<close>

definition db_fetch_assigned :: "store \<Rightarrow> int \<Rightarrow> device list" where
  "db_fetch_assigned st identifier =
     filter (\<lambda>d. d_group_id d = Some identifier) (devices_tbl st)"

text \<open>
  Modelled from the spec: \<^verbatim>\<open>_groups_db.fetch_assigned_packages\<close> is not in the source; it
  returns the package identifiers currently assigned to the group.
\<close>

definition db_fetch_assigned_packages :: "store \<Rightarrow> int \<Rightarrow> int list" where
  "db_fetch_assigned_packages st identifier =
     map snd (filter (\<lambda>r. fst r = identifier) (group_packages_tbl st))"

text \<open>
  Modelled from the spec: the identifier allocation of \<^verbatim>\<open>_groups_db.create\<close> is not in the
  source; Create "allocates an id". The model takes the successor of the largest
  identifier in the group table (1 in an empty table).
\<close>

definition next_id :: "group list \<Rightarrow> int" where
  "next_id gs = foldr (\<lambda>g m. max (g_id g) m) gs 0 + 1"

text \<open>
  Modelled from the spec: \<^verbatim>\<open>_groups_db.create\<close> is not in the source; it allocates the
  identifier, writes it into the model object and inserts the row.
\<close>

definition db_create :: "store \<Rightarrow> group \<Rightarrow> group \<times> store" where
  "db_create st g =
     (let g' = g\<lparr>g_id := next_id (groups_tbl st)\<rparr>
      in (g', st\<lparr>groups_tbl := groups_tbl st @ [g']\<rparr>))"

text \<open>
  Modelled from the spec: \<^verbatim>\<open>_groups_db.delete\<close> is not in the source; Delete "fails with
  Conflict if the group's derived device set is non-empty; otherwise atomically removes
  the group record", the package set being part of the record. The result is the success
  flag the handler tests.
\<close>

definition db_delete :: "store \<Rightarrow> int \<Rightarrow> bool \<times> store" where
  "db_delete st identifier =
     (if db_fetch_assigned st identifier \<noteq> [] then (False, st)
      else (True, st\<lparr>groups_tbl := filter (\<lambda>g. g_id g \<noteq> identifier) (groups_tbl st),
                      group_packages_tbl :=
                        filter (\<lambda>r. fst r \<noteq> identifier) (group_packages_tbl st)\<rparr>))"

definition device_lookup :: "store \<Rightarrow> int \<Rightarrow> device option" where
  "device_lookup st i = find (\<lambda>d. d_id d = i) (devices_tbl st)"

text \<open>
  Modelled from the spec: the validation of \<^verbatim>\<open>_groups_db.modify_assignment\<close> is not in the
  source. Section 4.1: every id in the additions must reference an existing device that
  has no group assigned (also when its group is the target group); every id in the
  removals must reference an existing device assigned to exactly the target group. The
  checks are "evaluated as a single atomic unit before any mutation is applied", so
  both read the store as it is at the call. The error says which rule was violated.
\<close>

fun check_additions :: "store \<Rightarrow> int list \<Rightarrow> string option" where
  "check_additions st [] = None"
| "check_additions st (i # ids) =
     (case device_lookup st i of
        None \<Rightarrow> Some ''device does not exist''
      | Some d \<Rightarrow>
          if d_group_id d \<noteq> None then Some ''device already assigned to a group''
          else check_additions st ids)"

fun check_removals :: "store \<Rightarrow> int \<Rightarrow> int list \<Rightarrow> string option" where
  "check_removals st identifier [] = None"
| "check_removals st identifier (i # ids) =
     (case device_lookup st i of
        None \<Rightarrow> Some ''device does not exist''
      | Some d \<Rightarrow>
          if d_group_id d \<noteq> Some identifier
          then Some ''device not currently assigned to this group''
          else check_removals st identifier ids)"

text \<open>
  Modelled from the spec: the side effect of the membership change, "for each id in
  additions, Device.group_id := group_id; for each id in removals, Device.group_id :=
  none".
\<close>

definition set_group :: "int option \<Rightarrow> int list \<Rightarrow> device list \<Rightarrow> device list" where
  "set_group g ids ds = map (\<lambda>d. if d_id d \<in> set ids then d\<lparr>d_group_id := g\<rparr> else d) ds"

text \<open>
  Modelled from the spec: \<^verbatim>\<open>_groups_db.modify_assignment\<close> is not in the source. If any
  check fails the operation is aborted with the error and no mutation; once all checks
  pass, the additions are applied, then the removals. The result is the optional error
  string the handler tests.
\<close>

definition db_modify_assignment ::
  "store \<Rightarrow> int \<Rightarrow> int list \<Rightarrow> int list \<Rightarrow> string option \<times> store" where
  "db_modify_assignment st identifier additions removals =
     (case check_additions st additions of
        Some err \<Rightarrow> (Some err, st)
      | None \<Rightarrow>
          (case check_removals st identifier removals of
             Some err \<Rightarrow> (Some err, st)
           | None \<Rightarrow>
               (None, st\<lparr>devices_tbl :=
                  set_group None removals
                    (set_group (Some identifier) additions (devices_tbl st))\<rparr>)))"

text \<open>
  Modelled from the spec: \<^verbatim>\<open>_groups_db.modify_package\<close> is not in the source. Section 4.2:
  every package id must reference an existing Package, else Conflict; otherwise the
  operation replaces the group's package set with the supplied sequence.
\<close>

definition db_modify_package :: "store \<Rightarrow> int \<Rightarrow> int list \<Rightarrow> string option \<times> store" where
  "db_modify_package st identifier pkgs =
     (if list_ex (\<lambda>p. p \<notin> set (packages_tbl st)) pkgs
      then (Some ''package does not exist'', st)
      else (None, st\<lparr>group_packages_tbl :=
              filter (\<lambda>r. fst r \<noteq> identifier) (group_packages_tbl st)
                @ map (Pair identifier) pkgs\<rparr>))"

text \<open>
  Modelled from the spec: \<^verbatim>\<open>_groups_db.update_policy\<close> is not in the source; it "persists
  text (the original string, not a re-serialized form) as the Group's policy".
\<close>

definition db_update_policy :: "store \<Rightarrow> int \<Rightarrow> string \<Rightarrow> store" where
  "db_update_policy st identifier text =
     st\<lparr>groups_tbl :=
          map (\<lambda>g. if g_id g = identifier then g\<lparr>policy := text\<rparr> else g) (groups_tbl st)\<rparr>"

subsection \<open>The serialiser\<close>

text \<open>
  \<^verbatim>\<open>Group.Schema().dump\<close> is called inside the \<^verbatim>\<open>try\<close> of \<^verbatim>\<open>fetch_all\<close>,
  \<^verbatim>\<open>fetch_one\<close> and \<^verbatim>\<open>create\<close>; the schema class is not in the source. The handlers
  take the serialiser as a parameter \<open>dump\<close> that returns the serialised fields or raises.
  With \<^verbatim>\<open>many=True\<close> it serialises the objects of a list in order, and the first
  exception ends the call.
\<close>

fun dump_many ::
  "(group_schema \<Rightarrow> exn + group_schema) \<Rightarrow> group_schema list \<Rightarrow> exn + group_schema list" where
  "dump_many dump [] = Inr []"
| "dump_many dump (s # ss) =
     (case dump s of
        Inl e \<Rightarrow> Inl e
      | Inr p \<Rightarrow> (case dump_many dump ss of Inl e \<Rightarrow> Inl e | Inr ps \<Rightarrow> Inr (p # ps)))"

text \<open>
  Modelled from the spec: the schema class \<^verbatim>\<open>rdfm.schema.v1.groups.Group\<close> is not in the
  source. Section 3 types the metadata of a group as "an arbitrary string-keyed map of
  opaque values" (the docstrings of the source: \<^verbatim>\<open>dict[str, str] metadata\<close>), and section 6
  has a key-value metadata object become the group's metadata verbatim. A group whose
  metadata is a key-value object is serialised with every field as it is; a metadata
  value of any other shape is no mapping, and serialising it raises.
\<close>

definition Group_Schema_dump :: "group_schema \<Rightarrow> exn + group_schema" where
  "Group_Schema_dump s =
     (case s_metadata s of
        JObject kvs \<Rightarrow> Inr s
      | _ \<Rightarrow> Inl (OtherException ''metadata is not a mapping''))"

subsection \<open>The handlers\<close>

text \<open>
  Each handler body is a \<^verbatim>\<open>try\<close> whose \<^verbatim>\<open>except Exception\<close> answers 500. In the model
  three calls can raise: reading \<^verbatim>\<open>request.json\<close> (a body that is no JSON), the policy
  compiler and the serialiser; each is given to the handler as a value or a function of
  type \<open>exn + _\<close>, with \<open>Inl\<close> the exception raised. The store operations above are total,
  so the other handlers have no reachable \<^verbatim>\<open>except\<close> branch.
\<close>

definition model_to_schema :: "store \<Rightarrow> group \<Rightarrow> group_schema" where
  "model_to_schema st grp =
     \<lparr>s_id = g_id grp,
      s_created = created grp,
      s_packages = db_fetch_assigned_packages st (g_id grp),
      s_devices = map d_id (db_fetch_assigned st (g_id grp)),
      s_metadata = info grp,
      s_policy = policy grp\<rparr>"

definition fetch_all :: "(group_schema \<Rightarrow> exn + group_schema) \<Rightarrow> store \<Rightarrow> response" where
  "fetch_all dump st =
     (case dump_many dump (map (model_to_schema st) (db_fetch_all st)) of
        Inl e \<Rightarrow> api_error ''fetching failed'' 500
      | Inr payloads \<Rightarrow> (GroupsBody payloads, 200))"

definition fetch_one ::
  "(group_schema \<Rightarrow> exn + group_schema) \<Rightarrow> int \<Rightarrow> store \<Rightarrow> response" where
  "fetch_one dump identifier st =
     (case db_fetch_one st identifier of
        None \<Rightarrow> api_error ''group does not exist'' 404
      | Some grp \<Rightarrow>
          (case dump (model_to_schema st grp) of
             Inl e \<Rightarrow> api_error ''fetching failed'' 500
           | Inr payload \<Rightarrow> (GroupBody payload, 200)))"

definition delete_one :: "int \<Rightarrow> store \<Rightarrow> response \<times> store" where
  "delete_one identifier st =
     (case db_fetch_one st identifier of
        None \<Rightarrow> (api_error ''group does not exist'' 404, st)
      | Some grp \<Rightarrow>
          (let (success, st') = db_delete st identifier
           in if \<not> success
              then (api_error ''group is still assigned to some devices'' 409, st')
              else ((EmptyBody, 200), st')))"

definition change_assigned :: "int \<Rightarrow> AssignDeviceRequest \<Rightarrow> store \<Rightarrow> response \<times> store" where
  "change_assigned identifier instructions st =
     (case db_fetch_one st identifier of
        None \<Rightarrow> (api_error ''group does not exist'' 404, st)
      | Some grp \<Rightarrow>
          (let (err, st') =
                 db_modify_assignment st identifier (add instructions) (remove instructions)
           in case err of
                Some e \<Rightarrow> (api_error e 409, st')
              | None \<Rightarrow> ((EmptyBody, 200), st')))"

text \<open>
  \<^verbatim>\<open>create\<close> builds the model object, whose \<^verbatim>\<open>id\<close> attribute stays unset until the store
  inserts the row; no code reads it before, and the record carries 0 until then. The
  response is serialised after the insertion: an exception of the serialiser is answered
  500 by the \<^verbatim>\<open>except\<close> branch, which undoes nothing, so the row stays inserted.
\<close>

definition create ::
  "(group_schema \<Rightarrow> exn + group_schema) \<Rightarrow> datetime \<Rightarrow> exn + json \<Rightarrow> store \<Rightarrow>
     response \<times> store" where
  "create dump utcnow request_json st =
     (case request_json of
        Inl e \<Rightarrow> (api_error ''group creation failed'' 500, st)
      | Inr metadata \<Rightarrow>
          (let grp = \<lparr>g_id = 0, created = utcnow, info = metadata,
                      policy = ''no_update,'', priority = GROUP_DEFAULT_PRIORITY\<rparr>;
               (grp', st') = db_create st grp
           in case dump (model_to_schema st' grp') of
                Inl e \<Rightarrow> (api_error ''group creation failed'' 500, st')
              | Inr payload \<Rightarrow> ((GroupBody payload, 200), st')))"

definition assign_package :: "int \<Rightarrow> AssignPackageRequest \<Rightarrow> store \<Rightarrow> response \<times> store" where
  "assign_package identifier assignment st =
     (case db_fetch_one st identifier of
        None \<Rightarrow> (api_error ''group does not exist'' 404, st)
      | Some grp \<Rightarrow>
          (let (err, st') = db_modify_package st identifier (packages assignment)
           in case err of
                Some e \<Rightarrow> (api_error e 409, st')
              | None \<Rightarrow> ((EmptyBody, 200), st')))"

text \<open>
  \<^verbatim>\<open>update_policy\<close>: the inner \<^verbatim>\<open>try\<close> catches \<^verbatim>\<open>RuntimeError\<close> only and answers 400
  with the exception's text; any other exception of the compiler reaches the outer
  \<^verbatim>\<open>except Exception\<close>. The compiler's result is unused: the handler stores the string.
\<close>

definition update_policy ::
  "(string \<Rightarrow> exn + 'p) \<Rightarrow> int \<Rightarrow> string \<Rightarrow> store \<Rightarrow> response \<times> store" where
  "update_policy policy_create identifier policy_text st =
     (if db_fetch_one st identifier = None
      then (api_error ''group does not exist'' 404, st)
      else
        (case policy_create policy_text of
           Inl (RuntimeError e) \<Rightarrow> (api_error (''invalid policy: '' @ e) 400, st)
         | Inl (OtherException e) \<Rightarrow> (api_error ''group policy assignment failed'' 500, st)
         | Inr compiled \<Rightarrow> ((EmptyBody, 200), db_update_policy st identifier policy_text)))"

subsection \<open>The blueprint as a whole\<close>

text \<open>
  The routes of the blueprint as one request type, so that "any operation" and "any
  sequence of operations" can be quantified over. \<^verbatim>\<open>Create\<close> carries the clock reading of
  \<^verbatim>\<open>datetime.utcnow()\<close> and the outcome of reading \<^verbatim>\<open>request.json\<close>. The compiler and
  the serialiser are the same for all requests.
\<close>

datatype request =
    FetchAll
  | FetchOne int
  | DeleteOne int
  | ChangeAssigned int AssignDeviceRequest
  | Create datetime "exn + json"
  | AssignPackage int AssignPackageRequest
  | UpdatePolicy int string

fun handle ::
  "(string \<Rightarrow> exn + 'p) \<Rightarrow> (group_schema \<Rightarrow> exn + group_schema) \<Rightarrow> request \<Rightarrow> store \<Rightarrow>
     response \<times> store" where
  "handle policy_create dump FetchAll st = (fetch_all dump st, st)"
| "handle policy_create dump (FetchOne i) st = (fetch_one dump i st, st)"
| "handle policy_create dump (DeleteOne i) st = delete_one i st"
| "handle policy_create dump (ChangeAssigned i instructions) st =
     change_assigned i instructions st"
| "handle policy_create dump (Create utcnow request_json) st =
     create dump utcnow request_json st"
| "handle policy_create dump (AssignPackage i assignment) st = assign_package i assignment st"
| "handle policy_create dump (UpdatePolicy i policy_text) st =
     update_policy policy_create i policy_text st"

fun serve ::
  "(string \<Rightarrow> exn + 'p) \<Rightarrow> (group_schema \<Rightarrow> exn + group_schema) \<Rightarrow> request list \<Rightarrow> store \<Rightarrow>
     store" where
  "serve policy_create dump [] st = st"
| "serve policy_create dump (r # rs) st =
     serve policy_create dump rs (snd (handle policy_create dump r st))"

subsection \<open>Predicates of the specification\<close>

text \<open>
  The validation rules of the membership change in the words of section 4.1: every
  addition is an existing device with no group, every removal an existing device of
  exactly this group.
\<close>

definition membership_checks_pass :: "store \<Rightarrow> int \<Rightarrow> AssignDeviceRequest \<Rightarrow> bool" where
  "membership_checks_pass st i instructions =
     ((\<forall>a \<in> set (add instructions).
         \<exists>d. device_lookup st a = Some d \<and> d_group_id d = None) \<and>
      (\<forall>r \<in> set (remove instructions).
         \<exists>d. device_lookup st r = Some d \<and> d_group_id d = Some i))"

text \<open>A policy string passes validation when the compiler returns a policy for it.\<close>

definition compiles :: "(string \<Rightarrow> exn + 'p) \<Rightarrow> string \<Rightarrow> bool" where
  "compiles policy_create text =
     (case policy_create text of Inl e \<Rightarrow> False | Inr compiled \<Rightarrow> True)"

text \<open>Invariant 4 of the data model: every stored policy is the default or compiles.\<close>

definition policy_invariant :: "(string \<Rightarrow> exn + 'p) \<Rightarrow> store \<Rightarrow> bool" where
  "policy_invariant policy_create st =
     (\<forall>g \<in> set (groups_tbl st).
        policy g = ''no_update,'' \<or> compiles policy_create (policy g))"

text \<open>
  No dangling references: a device's group and the group of a package assignment are
  groups of the store (the first testable property of section 8).
\<close>

definition referential_integrity :: "store \<Rightarrow> bool" where
  "referential_integrity st =
     ((\<forall>d \<in> set (devices_tbl st).
         case d_group_id d of None \<Rightarrow> True | Some g \<Rightarrow> db_fetch_one st g \<noteq> None) \<and>
      (\<forall>r \<in> set (group_packages_tbl st). db_fetch_one st (fst r) \<noteq> None))"

text \<open>
  The derived views in the words of section 3: the devices of a group are the ids of the
  devices whose group reference is this group's id, and its packages are the packages of
  the assignments to this group, both read from the given store.
\<close>

definition derived_from_store :: "store \<Rightarrow> group_schema \<Rightarrow> bool" where
  "derived_from_store st s =
     (set (s_devices s) =
        {d_id d |d. d \<in> set (devices_tbl st) \<and> d_group_id d = Some (s_id s)} \<and>
      set (s_packages s) = {p. (s_id s, p) \<in> set (group_packages_tbl st)})"

subsection \<open>A store and a compiler for the worked examples\<close>

text \<open>
  Two groups; devices 1 and 2 unassigned, device 3 in group 2, device 5 in group 1;
  three packages, two of them assigned to group 1.
\<close>

definition example_store :: store where
  "example_store =
     \<lparr>groups_tbl =
        [\<lparr>g_id = 1, created = 1000, info = JObject [], policy = ''no_update,'',
          priority = 25\<rparr>,
         \<lparr>g_id = 2, created = 2000, info = JObject [(''site'', JString ''lab'')],
          policy = ''exact_match,v1'', priority = 25\<rparr>],
      devices_tbl =
        [\<lparr>d_id = 1, d_group_id = None\<rparr>, \<lparr>d_id = 2, d_group_id = None\<rparr>,
         \<lparr>d_id = 3, d_group_id = Some 2\<rparr>, \<lparr>d_id = 5, d_group_id = Some 1\<rparr>],
      packages_tbl = [1, 2, 3],
      group_packages_tbl = [(1, 1), (1, 2)]\<rparr>"

text \<open>
  A compiler that knows the policy strings of section 8: \<^verbatim>\<open>no_update,\<close> and
  \<^verbatim>\<open>exact_match,v1\<close> compile, anything else is rejected with a \<^verbatim>\<open>RuntimeError\<close>,
  except the string \<^verbatim>\<open>crash\<close>, on which it fails with another exception.
\<close>

datatype example_policy = NoUpdate | ExactMatch string

definition example_policy_create :: "string \<Rightarrow> exn + example_policy" where
  "example_policy_create text =
     (if text = ''no_update,'' then Inr NoUpdate
      else if text = ''exact_match,v1'' then Inr (ExactMatch ''v1'')
      else if text = ''crash'' then Inl (OtherException ''list index out of range'')
      else Inl (RuntimeError ''unknown policy''))"

section \<open>Properties\<close>

subsection \<open>Membership change\<close>

lemma check_additions_None:
  "check_additions st ids = None \<longleftrightarrow>
     (\<forall>a \<in> set ids. \<exists>d. device_lookup st a = Some d \<and> d_group_id d = None)"
  by (induction ids) (auto split: option.splits)

lemma check_removals_None:
  "check_removals st g ids = None \<longleftrightarrow>
     (\<forall>r \<in> set ids. \<exists>d. device_lookup st r = Some d \<and> d_group_id d = Some g)"
  by (induction ids) (auto split: option.splits)

lemma db_modify_assignment_ok:
  "fst (db_modify_assignment st g adds rems) = None \<longleftrightarrow>
     check_additions st adds = None \<and> check_removals st g rems = None"
  by (simp add: db_modify_assignment_def split: option.splits)

lemma db_modify_assignment_err:
  "fst (db_modify_assignment st g adds rems) \<noteq> None \<Longrightarrow>
     snd (db_modify_assignment st g adds rems) = st"
  by (simp add: db_modify_assignment_def split: option.splits)

text \<open>
  C1. A membership change on a group that does not exist answers 404; on an existing
  group, if any check fails for any id of the additions or removals (no such device, an
  addition that already has a group, a removal that is not in this group), it answers 409
  and the store is as before; it answers 200 exactly when the group exists and every
  check passes.
\<close>

theorem change_assigned_outcome:
  "(db_fetch_one st i = None \<longrightarrow>
      change_assigned i instructions st = (api_error ''group does not exist'' 404, st)) \<and>
   (db_fetch_one st i \<noteq> None \<and> \<not> membership_checks_pass st i instructions \<longrightarrow>
      snd (fst (change_assigned i instructions st)) = 409 \<and>
      snd (change_assigned i instructions st) = st) \<and>
   (snd (fst (change_assigned i instructions st)) = 200 \<longleftrightarrow>
      db_fetch_one st i \<noteq> None \<and> membership_checks_pass st i instructions)"
proof -
  let ?m = "db_modify_assignment st i (add instructions) (remove instructions)"
  have ok: "fst ?m = None \<longleftrightarrow> membership_checks_pass st i instructions"
    by (simp add: db_modify_assignment_ok check_additions_None check_removals_None
        membership_checks_pass_def)
  have absent: "change_assigned i instructions st =
      (api_error ''group does not exist'' 404, st)"
    if "db_fetch_one st i = None"
    using that by (simp add: change_assigned_def)
  have present: "change_assigned i instructions st =
      (case fst ?m of Some e \<Rightarrow> (api_error e 409, snd ?m)
       | None \<Rightarrow> ((EmptyBody, 200), snd ?m))"
    if "db_fetch_one st i \<noteq> None"
    using that by (auto simp: change_assigned_def split: prod.splits option.splits)
  have unchanged: "fst ?m \<noteq> None \<Longrightarrow> snd ?m = st"
    by (rule db_modify_assignment_err)
  show ?thesis
    using absent present ok unchanged
    by (cases "db_fetch_one st i"; cases "fst ?m") (auto simp: api_error_def)
qed

theorem change_assigned_outcome_witness:
  "db_fetch_one example_store 9 = None \<and>
   change_assigned 9 \<lparr>add = [1], remove = []\<rparr> example_store =
     (api_error ''group does not exist'' 404, example_store) \<and>
   db_fetch_one example_store 1 \<noteq> None \<and>
   \<not> membership_checks_pass example_store 1 \<lparr>add = [1, 2], remove = [3]\<rparr> \<and>
   snd (fst (change_assigned 1 \<lparr>add = [1, 2], remove = [3]\<rparr> example_store)) = 409 \<and>
   snd (change_assigned 1 \<lparr>add = [1, 2], remove = [3]\<rparr> example_store) = example_store \<and>
   membership_checks_pass example_store 1 \<lparr>add = [1, 2], remove = [5]\<rparr> \<and>
   snd (fst (change_assigned 1 \<lparr>add = [1, 2], remove = [5]\<rparr> example_store)) = 200"
proof -
  have absent: "db_fetch_one example_store 9 = None"
    by (simp add: db_fetch_one_def example_store_def)
  have present: "db_fetch_one example_store 1 \<noteq> None"
    by (simp add: db_fetch_one_def example_store_def)
  have bad: "\<not> membership_checks_pass example_store 1 \<lparr>add = [1, 2], remove = [3]\<rparr>"
    by (simp add: membership_checks_pass_def device_lookup_def example_store_def)
  have good: "membership_checks_pass example_store 1 \<lparr>add = [1, 2], remove = [5]\<rparr>"
    by (simp add: membership_checks_pass_def device_lookup_def example_store_def)
  show ?thesis
    using absent present bad good
      change_assigned_outcome [of example_store 9 "\<lparr>add = [1], remove = []\<rparr>"]
      change_assigned_outcome [of example_store 1 "\<lparr>add = [1, 2], remove = [3]\<rparr>"]
      change_assigned_outcome [of example_store 1 "\<lparr>add = [1, 2], remove = [5]\<rparr>"]
    by simp
qed

subsection \<open>The policy invariant\<close>

lemma policy_invariant_delete_one:
  "policy_invariant policy_create st \<Longrightarrow>
     policy_invariant policy_create (snd (delete_one i st))"
  by (auto simp: policy_invariant_def delete_one_def db_delete_def split: option.splits)

lemma policy_invariant_change_assigned:
  "policy_invariant policy_create st \<Longrightarrow>
     policy_invariant policy_create (snd (change_assigned i instructions st))"
  by (auto simp: policy_invariant_def change_assigned_def db_modify_assignment_def
      split: option.splits)

lemma policy_invariant_assign_package:
  "policy_invariant policy_create st \<Longrightarrow>
     policy_invariant policy_create (snd (assign_package i assignment st))"
  by (auto simp: policy_invariant_def assign_package_def db_modify_package_def
      split: option.splits)

lemma policy_invariant_create:
  "policy_invariant policy_create st \<Longrightarrow>
     policy_invariant policy_create (snd (create dump utcnow request_json st))"
  by (auto simp: policy_invariant_def create_def db_create_def Let_def split: sum.splits)

lemma update_policy_rejected:
  "\<not> compiles policy_create policy_text \<Longrightarrow>
     snd (update_policy policy_create i policy_text st) = st"
  by (auto simp: update_policy_def compiles_def split: sum.splits exn.splits)

lemma policy_invariant_update_policy:
  "policy_invariant policy_create st \<Longrightarrow>
     policy_invariant policy_create (snd (update_policy policy_create i policy_text st))"
  by (auto simp: policy_invariant_def update_policy_def db_update_policy_def compiles_def
      split: sum.splits exn.splits)

lemma policy_invariant_handle:
  "policy_invariant policy_create st \<Longrightarrow>
     policy_invariant policy_create (snd (handle policy_create dump r st))"
  by (cases r)
    (simp_all add: policy_invariant_delete_one policy_invariant_change_assigned
      policy_invariant_assign_package policy_invariant_create policy_invariant_update_policy)

lemma policy_invariant_serve:
  "policy_invariant policy_create st \<Longrightarrow>
     policy_invariant policy_create (serve policy_create dump rs st)"
  by (induction rs arbitrary: st) (simp_all add: policy_invariant_handle)

text \<open>
  C3. If every stored policy is the default \<^verbatim>\<open>no_update,\<close> or a string the compiler
  accepts, this also holds after any sequence of requests to the blueprint; and an
  \<^verbatim>\<open>update_policy\<close> whose text the compiler does not accept (whatever it raises) leaves
  the store, so the group's policy, as it was.
\<close>

theorem policy_never_unparsable:
  assumes "policy_invariant policy_create st"
  shows "policy_invariant policy_create (serve policy_create dump rs st) \<and>
         (\<not> compiles policy_create policy_text \<longrightarrow>
            snd (update_policy policy_create i policy_text st) = st)"
  using assms by (simp add: policy_invariant_serve update_policy_rejected)

theorem policy_never_unparsable_witness:
  "policy_invariant example_policy_create example_store \<and>
   map policy (groups_tbl (serve example_policy_create Group_Schema_dump
     [Create 3000 (Inr (JObject [])), UpdatePolicy 1 ''bogus'', UpdatePolicy 3 ''crash'',
      UpdatePolicy 1 ''exact_match,v1'']
     example_store)) = [''exact_match,v1'', ''exact_match,v1'', ''no_update,''] \<and>
   policy_invariant example_policy_create (serve example_policy_create Group_Schema_dump
     [Create 3000 (Inr (JObject [])), UpdatePolicy 1 ''bogus'', UpdatePolicy 3 ''crash'',
      UpdatePolicy 1 ''exact_match,v1'']
     example_store) \<and>
   \<not> compiles example_policy_create ''bogus'' \<and>
   snd (update_policy example_policy_create 1 ''bogus'' example_store) = example_store"
proof -
  have inv: "policy_invariant example_policy_create example_store"
    by (simp add: policy_invariant_def example_store_def compiles_def
        example_policy_create_def)
  have bogus: "\<not> compiles example_policy_create ''bogus''"
    by (simp add: compiles_def example_policy_create_def)
  have run: "map policy (groups_tbl (serve example_policy_create Group_Schema_dump
     [Create 3000 (Inr (JObject [])), UpdatePolicy 1 ''bogus'', UpdatePolicy 3 ''crash'',
      UpdatePolicy 1 ''exact_match,v1'']
     example_store)) = [''exact_match,v1'', ''exact_match,v1'', ''no_update,'']"
    by (simp add: example_store_def create_def db_create_def next_id_def update_policy_def
        db_fetch_one_def db_update_policy_def example_policy_create_def
        GROUP_DEFAULT_PRIORITY_def Let_def model_to_schema_def Group_Schema_dump_def)
  show ?thesis
    using inv bogus run
      policy_never_unparsable [OF inv, of Group_Schema_dump
        "[Create 3000 (Inr (JObject [])), UpdatePolicy 1 ''bogus'', UpdatePolicy 3 ''crash'',
          UpdatePolicy 1 ''exact_match,v1'']" "''bogus''" 1]
    by simp
qed

subsection \<open>Policy assignment\<close>

lemma find_policy_update:
  "find (\<lambda>g. g_id g = i) (map (\<lambda>g. if g_id g = i then g\<lparr>policy := t\<rparr> else g) gs) =
     map_option (\<lambda>g. g\<lparr>policy := t\<rparr>) (find (\<lambda>g. g_id g = i) gs)"
  by (induction gs) auto

lemma db_fetch_one_update_policy:
  "db_fetch_one (db_update_policy st i t) i =
     map_option (\<lambda>g. g\<lparr>policy := t\<rparr>) (db_fetch_one st i)"
  by (simp add: db_fetch_one_def db_update_policy_def find_policy_update)

text \<open>
  C4. \<^verbatim>\<open>update_policy\<close> on a group that does not exist answers 404; when the compiler
  rejects the text (the \<^verbatim>\<open>RuntimeError\<close> the handler catches), it answers 400 with the
  compiler's reason in the message and the store as before; when the text compiles, it
  answers 200 and the group's stored policy is the submitted string itself.
\<close>

theorem update_policy_outcome:
  "(db_fetch_one st i = None \<longrightarrow>
      update_policy policy_create i policy_text st =
        (api_error ''group does not exist'' 404, st)) \<and>
   (db_fetch_one st i \<noteq> None \<and> policy_create policy_text = Inl (RuntimeError reason) \<longrightarrow>
      update_policy policy_create i policy_text st =
        (api_error (''invalid policy: '' @ reason) 400, st)) \<and>
   (db_fetch_one st i = Some grp \<and> policy_create policy_text = Inr compiled \<longrightarrow>
      fst (update_policy policy_create i policy_text st) = (EmptyBody, 200) \<and>
      db_fetch_one (snd (update_policy policy_create i policy_text st)) i =
        Some (grp\<lparr>policy := policy_text\<rparr>))"
  by (simp add: update_policy_def db_fetch_one_update_policy)

theorem update_policy_outcome_witness:
  "db_fetch_one example_store 9 = None \<and>
   update_policy example_policy_create 9 ''exact_match,v1'' example_store =
     (api_error ''group does not exist'' 404, example_store) \<and>
   db_fetch_one example_store 1 \<noteq> None \<and>
   example_policy_create ''bogus'' = Inl (RuntimeError ''unknown policy'') \<and>
   update_policy example_policy_create 1 ''bogus'' example_store =
     (api_error ''invalid policy: unknown policy'' 400, example_store) \<and>
   example_policy_create ''exact_match,v1'' = Inr (ExactMatch ''v1'') \<and>
   fst (update_policy example_policy_create 1 ''exact_match,v1'' example_store) =
     (EmptyBody, 200) \<and>
   db_fetch_one (snd (update_policy example_policy_create 1 ''exact_match,v1'' example_store)) 1 =
     Some \<lparr>g_id = 1, created = 1000, info = JObject [], policy = ''exact_match,v1'',
           priority = 25\<rparr>"
proof -
  have absent: "db_fetch_one example_store 9 = None"
    by (simp add: db_fetch_one_def example_store_def)
  have present: "db_fetch_one example_store 1 =
      Some \<lparr>g_id = 1, created = 1000, info = JObject [], policy = ''no_update,'',
            priority = 25\<rparr>"
    by (simp add: db_fetch_one_def example_store_def)
  have bogus: "example_policy_create ''bogus'' = Inl (RuntimeError ''unknown policy'')"
    by (simp add: example_policy_create_def)
  have exact: "example_policy_create ''exact_match,v1'' = Inr (ExactMatch ''v1'')"
    by (simp add: example_policy_create_def)
  show ?thesis
    using absent present bogus exact
      update_policy_outcome [of example_store 9 example_policy_create "''exact_match,v1''"]
      update_policy_outcome [of example_store 1 example_policy_create "''bogus''"
        "''unknown policy''"]
      update_policy_outcome [of example_store 1 example_policy_create "''exact_match,v1''"
        _ _ "ExactMatch ''v1''"]
    by simp
qed

text \<open>
  C9. On an existing group, a \<^verbatim>\<open>RuntimeError\<close> of the compiler is answered 400 with its
  text, an exception of any other class is answered 500 by the outer guard, the store is
  as before in both cases, and 400 is answered for a \<^verbatim>\<open>RuntimeError\<close> only.
\<close>

theorem update_policy_exception_classes:
  assumes "db_fetch_one st i \<noteq> None"
  shows "(policy_create policy_text = Inl (RuntimeError msg) \<longrightarrow>
            update_policy policy_create i policy_text st =
              (api_error (''invalid policy: '' @ msg) 400, st)) \<and>
         (policy_create policy_text = Inl (OtherException msg) \<longrightarrow>
            update_policy policy_create i policy_text st =
              (api_error ''group policy assignment failed'' 500, st)) \<and>
         (snd (fst (update_policy policy_create i policy_text st)) = 400 \<longleftrightarrow>
            (\<exists>m. policy_create policy_text = Inl (RuntimeError m)))"
  using assms
  by (auto simp: update_policy_def api_error_def split: sum.splits exn.splits)

theorem update_policy_exception_classes_witness:
  "db_fetch_one example_store 1 \<noteq> None \<and>
   example_policy_create ''bogus'' = Inl (RuntimeError ''unknown policy'') \<and>
   update_policy example_policy_create 1 ''bogus'' example_store =
     (api_error ''invalid policy: unknown policy'' 400, example_store) \<and>
   example_policy_create ''crash'' = Inl (OtherException ''list index out of range'') \<and>
   update_policy example_policy_create 1 ''crash'' example_store =
     (api_error ''group policy assignment failed'' 500, example_store)"
proof -
  have present: "db_fetch_one example_store 1 \<noteq> None"
    by (simp add: db_fetch_one_def example_store_def)
  have bogus: "example_policy_create ''bogus'' = Inl (RuntimeError ''unknown policy'')"
    by (simp add: example_policy_create_def)
  have crash: "example_policy_create ''crash'' =
      Inl (OtherException ''list index out of range'')"
    by (simp add: example_policy_create_def)
  show ?thesis
    using present bogus crash
      update_policy_exception_classes [OF present, of example_policy_create "''bogus''"
        "''unknown policy''"]
      update_policy_exception_classes [OF present, of example_policy_create "''crash''"
        "''list index out of range''"]
    by simp
qed

subsection \<open>Package assignment\<close>

text \<open>
  C5. \<^verbatim>\<open>assign_package\<close> on a group that does not exist answers 404; on an existing
  group, a package id that references no package answers 409; and 404 is answered only
  when the group is missing.
\<close>

theorem assign_package_outcome:
  "(db_fetch_one st i = None \<longrightarrow>
      assign_package i assignment st = (api_error ''group does not exist'' 404, st)) \<and>
   (db_fetch_one st i \<noteq> None \<and> (\<exists>p \<in> set (packages assignment). p \<notin> set (packages_tbl st)) \<longrightarrow>
      snd (fst (assign_package i assignment st)) = 409) \<and>
   (snd (fst (assign_package i assignment st)) = 404 \<longleftrightarrow> db_fetch_one st i = None)"
  by (auto simp: assign_package_def db_modify_package_def api_error_def list_ex_iff
      split: option.splits)

theorem assign_package_outcome_witness:
  "db_fetch_one example_store 9 = None \<and>
   assign_package 9 \<lparr>packages = [1]\<rparr> example_store =
     (api_error ''group does not exist'' 404, example_store) \<and>
   db_fetch_one example_store 1 \<noteq> None \<and>
   (7::int) \<in> set [3, 7] \<and> 7 \<notin> set (packages_tbl example_store) \<and>
   snd (fst (assign_package 1 \<lparr>packages = [3, 7]\<rparr> example_store)) = 409"
proof -
  have absent: "db_fetch_one example_store 9 = None"
    by (simp add: db_fetch_one_def example_store_def)
  have present: "db_fetch_one example_store 1 \<noteq> None"
    by (simp add: db_fetch_one_def example_store_def)
  have missing: "7 \<notin> set (packages_tbl example_store)"
    by (simp add: example_store_def)
  show ?thesis
    using absent present missing
      assign_package_outcome [of example_store 9 "\<lparr>packages = [1]\<rparr>"]
      assign_package_outcome [of example_store 1 "\<lparr>packages = [3, 7]\<rparr>"]
    by simp
qed

subsection \<open>Deletion\<close>

lemma find_filter_other:
  "find (\<lambda>g. g_id g = j) (filter (\<lambda>g. g_id g \<noteq> i) gs) =
     (if j = i then None else find (\<lambda>g. g_id g = j) gs)"
  by (induction gs) auto

lemma db_fetch_assigned_empty:
  "db_fetch_assigned st i = [] \<longleftrightarrow> \<not> (\<exists>d \<in> set (devices_tbl st). d_group_id d = Some i)"
  by (auto simp: db_fetch_assigned_def filter_empty_conv)

text \<open>
  C6. \<^verbatim>\<open>delete_one\<close> on a group that does not exist answers 404; on a group that some
  device is assigned to it answers 409 and the store is as before; otherwise it answers
  200 and the group is gone from the store, every other group staying.
\<close>

theorem delete_one_outcome:
  "(db_fetch_one st i = None \<longrightarrow>
      delete_one i st = (api_error ''group does not exist'' 404, st)) \<and>
   (db_fetch_one st i \<noteq> None \<and> (\<exists>d \<in> set (devices_tbl st). d_group_id d = Some i) \<longrightarrow>
      delete_one i st = (api_error ''group is still assigned to some devices'' 409, st)) \<and>
   (db_fetch_one st i \<noteq> None \<and> \<not> (\<exists>d \<in> set (devices_tbl st). d_group_id d = Some i) \<longrightarrow>
      fst (delete_one i st) = (EmptyBody, 200) \<and>
      db_fetch_one (snd (delete_one i st)) i = None \<and>
      (\<forall>j. j \<noteq> i \<longrightarrow> db_fetch_one (snd (delete_one i st)) j = db_fetch_one st j))"
proof -
  have absent: "delete_one i st = (api_error ''group does not exist'' 404, st)"
    if "db_fetch_one st i = None"
    using that by (simp add: delete_one_def)
  have busy: "delete_one i st =
      (api_error ''group is still assigned to some devices'' 409, st)"
    if "db_fetch_one st i \<noteq> None" "db_fetch_assigned st i \<noteq> []"
    using that by (auto simp: delete_one_def db_delete_def)
  have free: "delete_one i st =
      ((EmptyBody, 200),
       st\<lparr>groups_tbl := filter (\<lambda>g. g_id g \<noteq> i) (groups_tbl st),
          group_packages_tbl := filter (\<lambda>r. fst r \<noteq> i) (group_packages_tbl st)\<rparr>)"
    if "db_fetch_one st i \<noteq> None" "db_fetch_assigned st i = []"
    using that by (auto simp: delete_one_def db_delete_def)
  show ?thesis
    using absent busy free
    by (simp add: db_fetch_assigned_empty db_fetch_one_def find_filter_other)
qed

theorem delete_one_outcome_witness:
  "db_fetch_one example_store 9 = None \<and>
   delete_one 9 example_store = (api_error ''group does not exist'' 404, example_store) \<and>
   db_fetch_one example_store 1 \<noteq> None \<and>
   d_group_id \<lparr>d_id = 5, d_group_id = Some 1\<rparr> = Some 1 \<and>
   delete_one 1 example_store =
     (api_error ''group is still assigned to some devices'' 409, example_store) \<and>
   db_fetch_one (example_store\<lparr>devices_tbl := []\<rparr>) 1 \<noteq> None \<and>
   fst (delete_one 1 (example_store\<lparr>devices_tbl := []\<rparr>)) = (EmptyBody, 200) \<and>
   db_fetch_one (snd (delete_one 1 (example_store\<lparr>devices_tbl := []\<rparr>))) 1 = None \<and>
   db_fetch_one (snd (delete_one 1 (example_store\<lparr>devices_tbl := []\<rparr>))) 2 =
     db_fetch_one (example_store\<lparr>devices_tbl := []\<rparr>) 2"
proof -
  have absent: "db_fetch_one example_store 9 = None"
    by (simp add: db_fetch_one_def example_store_def)
  have present: "db_fetch_one example_store 1 \<noteq> None"
    by (simp add: db_fetch_one_def example_store_def)
  have present': "db_fetch_one (example_store\<lparr>devices_tbl := []\<rparr>) 1 \<noteq> None"
    by (simp add: db_fetch_one_def example_store_def)
  have busy: "\<exists>d \<in> set (devices_tbl example_store). d_group_id d = Some 1"
    by (simp add: example_store_def)
  have free: "\<not> (\<exists>d \<in> set (devices_tbl (example_store\<lparr>devices_tbl := []\<rparr>)).
      d_group_id d = Some 1)"
    by simp
  show ?thesis
    using absent present present' busy free
      delete_one_outcome [of example_store 9]
      delete_one_outcome [of example_store 1]
      delete_one_outcome [of "example_store\<lparr>devices_tbl := []\<rparr>" 1]
    by simp
qed

subsection \<open>Creation\<close>

lemma next_id_greater: "g \<in> set gs \<Longrightarrow> g_id g < next_id gs"
  by (induction gs) (auto simp: next_id_def)

lemma db_fetch_one_None: "db_fetch_one st i = None \<longleftrightarrow> i \<notin> g_id ` set (groups_tbl st)"
  by (auto simp: db_fetch_one_def find_None_iff)

lemma db_fetch_one_next_id: "db_fetch_one st (next_id (groups_tbl st)) = None"
  using next_id_greater [of _ "groups_tbl st"] by (fastforce simp: db_fetch_one_None)

lemma find_snoc:
  "find P (xs @ [y]) = (case find P xs of None \<Rightarrow> (if P y then Some y else None) | Some x \<Rightarrow> Some x)"
  by (induction xs) auto

lemma db_fetch_one_created:
  "db_fetch_one (st\<lparr>groups_tbl := groups_tbl st @ [g]\<rparr>) i =
     (case db_fetch_one st i of None \<Rightarrow> (if g_id g = i then Some g else None)
      | Some x \<Rightarrow> Some x)"
  by (simp add: db_fetch_one_def find_snoc)

lemma create_unfold:
  "create dump utcnow (Inr metadata) st =
     (let g = \<lparr>g_id = next_id (groups_tbl st), created = utcnow, info = metadata,
               policy = ''no_update,'', priority = 25\<rparr>;
          st' = st\<lparr>groups_tbl := groups_tbl st @ [g]\<rparr>
      in case dump (model_to_schema st' g) of
           Inl e \<Rightarrow> (api_error ''group creation failed'' 500, st')
         | Inr payload \<Rightarrow> ((GroupBody payload, 200), st'))"
  by (simp add: create_def db_create_def Let_def GROUP_DEFAULT_PRIORITY_def
      split: sum.splits)

lemma create_store:
  "snd (create dump utcnow (Inr metadata) st) =
     st\<lparr>groups_tbl := groups_tbl st @
          [\<lparr>g_id = next_id (groups_tbl st), created = utcnow, info = metadata,
            policy = ''no_update,'', priority = 25\<rparr>]\<rparr>"
  by (simp add: create_unfold Let_def split: sum.splits)

lemma create_response:
  "fst (create dump utcnow (Inr metadata) st) =
     (case dump (model_to_schema (snd (create dump utcnow (Inr metadata) st))
                   \<lparr>g_id = next_id (groups_tbl st), created = utcnow, info = metadata,
                    policy = ''no_update,'', priority = 25\<rparr>) of
        Inl e \<Rightarrow> api_error ''group creation failed'' 500
      | Inr payload \<Rightarrow> (GroupBody payload, 200))"
  unfolding create_store by (simp add: create_unfold Let_def split: sum.splits)

lemma unreferenced_next_id:
  assumes "referential_integrity st"
  shows "filter (\<lambda>d. d_group_id d = Some (next_id (groups_tbl st))) (devices_tbl st) = []"
    and "filter (\<lambda>r. fst r = next_id (groups_tbl st)) (group_packages_tbl st) = []"
  using assms db_fetch_one_next_id [of st]
  by (auto simp: referential_integrity_def filter_empty_conv split: option.splits)

lemma created_schema:
  assumes "referential_integrity st"
  shows "model_to_schema (snd (create dump utcnow (Inr metadata) st))
           \<lparr>g_id = next_id (groups_tbl st), created = utcnow, info = metadata,
            policy = ''no_update,'', priority = 25\<rparr> =
         \<lparr>s_id = next_id (groups_tbl st), s_created = utcnow, s_packages = [],
          s_devices = [], s_metadata = metadata, s_policy = ''no_update,''\<rparr>"
  using unreferenced_next_id [OF assms]
  by (simp add: create_store model_to_schema_def db_fetch_assigned_def
      db_fetch_assigned_packages_def)

text \<open>
  C7. In a store without dangling group references, \<^verbatim>\<open>create\<close> with any metadata
  payload builds a group whose creation time is the clock reading, whose policy is
  \<^verbatim>\<open>no_update,\<close>, whose metadata is the payload, and whose package and device lists are
  empty: this group is what the serialiser is given, and the response is 200 with what the
  serialiser returns for it (500 if it raises); the stored row has these values and
  priority 25. For a key-value metadata object, serialised as the specification has it,
  the response is 200 and carries exactly these fields.
\<close>

theorem create_defaults:
  assumes "referential_integrity st"
  shows "fst (create dump utcnow (Inr metadata) st) =
           (case dump \<lparr>s_id = next_id (groups_tbl st), s_created = utcnow, s_packages = [],
                        s_devices = [], s_metadata = metadata, s_policy = ''no_update,''\<rparr> of
              Inl e \<Rightarrow> api_error ''group creation failed'' 500
            | Inr payload \<Rightarrow> (GroupBody payload, 200)) \<and>
         db_fetch_one (snd (create dump utcnow (Inr metadata) st)) (next_id (groups_tbl st)) =
           Some \<lparr>g_id = next_id (groups_tbl st), created = utcnow, info = metadata,
                 policy = ''no_update,'', priority = 25\<rparr> \<and>
         fst (create Group_Schema_dump utcnow (Inr (JObject kvs)) st) =
           (GroupBody \<lparr>s_id = next_id (groups_tbl st), s_created = utcnow, s_packages = [],
                       s_devices = [], s_metadata = JObject kvs, s_policy = ''no_update,''\<rparr>,
            200)"
proof (intro conjI)
  show "fst (create dump utcnow (Inr metadata) st) =
      (case dump \<lparr>s_id = next_id (groups_tbl st), s_created = utcnow, s_packages = [],
                   s_devices = [], s_metadata = metadata, s_policy = ''no_update,''\<rparr> of
         Inl e \<Rightarrow> api_error ''group creation failed'' 500
       | Inr payload \<Rightarrow> (GroupBody payload, 200))"
    by (simp only: create_response created_schema [OF assms])
  show "db_fetch_one (snd (create dump utcnow (Inr metadata) st)) (next_id (groups_tbl st)) =
      Some \<lparr>g_id = next_id (groups_tbl st), created = utcnow, info = metadata,
            policy = ''no_update,'', priority = 25\<rparr>"
    by (simp add: create_store db_fetch_one_created db_fetch_one_next_id)
  show "fst (create Group_Schema_dump utcnow (Inr (JObject kvs)) st) =
      (GroupBody \<lparr>s_id = next_id (groups_tbl st), s_created = utcnow, s_packages = [],
                  s_devices = [], s_metadata = JObject kvs, s_policy = ''no_update,''\<rparr>,
       200)"
    by (simp add: create_response created_schema [OF assms] Group_Schema_dump_def)
qed

theorem create_defaults_witness:
  "referential_integrity example_store \<and>
   fst (create Group_Schema_dump 3000
          (Inr (JObject [(''description'', JString ''A test group'')])) example_store) =
     (GroupBody \<lparr>s_id = 3, s_created = 3000, s_packages = [], s_devices = [],
                 s_metadata = JObject [(''description'', JString ''A test group'')],
                 s_policy = ''no_update,''\<rparr>, 200) \<and>
   db_fetch_one (snd (create Group_Schema_dump 3000
                        (Inr (JObject [(''description'', JString ''A test group'')]))
                        example_store)) 3 =
     Some \<lparr>g_id = 3, created = 3000,
           info = JObject [(''description'', JString ''A test group'')],
           policy = ''no_update,'', priority = 25\<rparr>"
proof -
  have ok: "referential_integrity example_store"
    by (simp add: referential_integrity_def example_store_def db_fetch_one_def)
  have n: "next_id (groups_tbl example_store) = 3"
    by (simp add: next_id_def example_store_def)
  show ?thesis
    using ok create_defaults [OF ok, of Group_Schema_dump 3000
        "JObject [(''description'', JString ''A test group'')]"
        "[(''description'', JString ''A test group'')]"]
    by (simp add: n Group_Schema_dump_def)
qed




subsection \<open>Referential integrity\<close>

lemma referential_integrity_delete_one:
  assumes "referential_integrity st"
  shows "referential_integrity (snd (delete_one i st))"
proof (cases "db_fetch_one st i = None \<or> db_fetch_assigned st i \<noteq> []")
  case True
  then show ?thesis
    using assms by (auto simp: delete_one_def db_delete_def split: option.splits)
next
  case False
  then have st': "snd (delete_one i st) =
      st\<lparr>groups_tbl := filter (\<lambda>g. g_id g \<noteq> i) (groups_tbl st),
         group_packages_tbl := filter (\<lambda>r. fst r \<noteq> i) (group_packages_tbl st)\<rparr>"
    by (auto simp: delete_one_def db_delete_def)
  have other: "db_fetch_one (snd (delete_one i st)) j = db_fetch_one st j" if "j \<noteq> i" for j
    using that by (simp add: st' db_fetch_one_def find_filter_other)
  have free: "d_group_id d \<noteq> Some i" if "d \<in> set (devices_tbl st)" for d
    using that False by (auto simp: db_fetch_assigned_def filter_empty_conv)
  have devs: "devices_tbl (snd (delete_one i st)) = devices_tbl st"
    and pkgs: "group_packages_tbl (snd (delete_one i st)) =
      filter (\<lambda>r. fst r \<noteq> i) (group_packages_tbl st)"
    by (simp_all add: st')
  show ?thesis
    unfolding referential_integrity_def devs pkgs
  proof (intro conjI ballI)
    fix d
    assume d: "d \<in> set (devices_tbl st)"
    show "case d_group_id d of None \<Rightarrow> True
          | Some g \<Rightarrow> db_fetch_one (snd (delete_one i st)) g \<noteq> None"
    proof (cases "d_group_id d")
      case None
      then show ?thesis by simp
    next
      case (Some g)
      then have "g \<noteq> i"
        using free [OF d] by auto
      moreover have "db_fetch_one st g \<noteq> None"
        using assms d Some by (auto simp: referential_integrity_def split: option.splits)
      ultimately show ?thesis
        using Some other by simp
    qed
  next
    fix r
    assume "r \<in> set (filter (\<lambda>r. fst r \<noteq> i) (group_packages_tbl st))"
    then have "fst r \<noteq> i" and "r \<in> set (group_packages_tbl st)"
      by auto
    then show "db_fetch_one (snd (delete_one i st)) (fst r) \<noteq> None"
      using assms other by (auto simp: referential_integrity_def)
  qed
qed

lemma referential_integrity_change_assigned:
  assumes "referential_integrity st"
  shows "referential_integrity (snd (change_assigned i instructions st))"
proof (cases "snd (change_assigned i instructions st) = st")
  case True
  then show ?thesis using assms by simp
next
  case False
  then have present: "db_fetch_one st i \<noteq> None"
    and st': "snd (change_assigned i instructions st) =
      st\<lparr>devices_tbl := set_group None (remove instructions)
           (set_group (Some i) (add instructions) (devices_tbl st))\<rparr>"
    by (auto simp: change_assigned_def db_modify_assignment_def split: option.splits)
  have "d_group_id d = None \<or> d_group_id d = Some i \<or>
      (\<exists>d' \<in> set (devices_tbl st). d_group_id d = d_group_id d')"
    if "d \<in> set (devices_tbl (snd (change_assigned i instructions st)))" for d
    using that by (auto simp: st' set_group_def split: if_splits)
  then show ?thesis
    using assms present
    by (fastforce simp: referential_integrity_def st' db_fetch_one_def split: option.splits)
qed

lemma referential_integrity_assign_package:
  assumes "referential_integrity st"
  shows "referential_integrity (snd (assign_package i assignment st))"
  using assms
  by (auto simp: referential_integrity_def assign_package_def db_modify_package_def
      db_fetch_one_def split: option.splits)

lemma referential_integrity_create:
  assumes "referential_integrity st"
  shows "referential_integrity (snd (create dump utcnow request_json st))"
proof (cases request_json)
  case (Inl e)
  then show ?thesis using assms by (simp add: create_def)
next
  case (Inr metadata)
  show ?thesis
    using assms unfolding Inr create_store
    by (auto simp: referential_integrity_def db_fetch_one_created split: option.splits)
qed

lemma map_g_id_policy_update:
  "map g_id (map (\<lambda>g. if g_id g = i then g\<lparr>policy := t\<rparr> else g) gs) = map g_id gs"
  by (induction gs) auto

lemma db_fetch_one_update_policy_None:
  "db_fetch_one (db_update_policy st i t) j = None \<longleftrightarrow> db_fetch_one st j = None"
proof -
  have "map g_id (groups_tbl (db_update_policy st i t)) = map g_id (groups_tbl st)"
    by (simp add: db_update_policy_def map_g_id_policy_update)
  then have "set (map g_id (groups_tbl (db_update_policy st i t))) =
      set (map g_id (groups_tbl st))"
    by (rule arg_cong)
  then have "g_id ` set (groups_tbl (db_update_policy st i t)) = g_id ` set (groups_tbl st)"
    by (simp only: set_map)
  then show ?thesis
    by (simp add: db_fetch_one_None)
qed

lemma referential_integrity_update_policy:
  assumes "referential_integrity st"
  shows "referential_integrity (snd (update_policy policy_create i policy_text st))"
proof (cases "snd (update_policy policy_create i policy_text st) = st")
  case True
  then show ?thesis using assms by simp
next
  case False
  then have st': "snd (update_policy policy_create i policy_text st) =
      db_update_policy st i policy_text"
    by (auto simp: update_policy_def split: sum.splits exn.splits if_splits)
  have tbls: "devices_tbl (db_update_policy st i policy_text) = devices_tbl st"
    "group_packages_tbl (db_update_policy st i policy_text) = group_packages_tbl st"
    by (simp_all add: db_update_policy_def)
  show ?thesis
    using assms
    unfolding st' referential_integrity_def tbls db_fetch_one_update_policy_None
    by simp
qed

lemma referential_integrity_handle:
  "referential_integrity st \<Longrightarrow> referential_integrity (snd (handle policy_create dump r st))"
  by (cases r)
    (simp_all add: referential_integrity_delete_one referential_integrity_change_assigned
      referential_integrity_assign_package referential_integrity_create
      referential_integrity_update_policy)

lemma referential_integrity_serve:
  "referential_integrity st \<Longrightarrow> referential_integrity (serve policy_create dump rs st)"
  by (induction rs arbitrary: st) (simp_all add: referential_integrity_handle)

subsection \<open>Responses\<close>

lemma derived_model_to_schema: "derived_from_store st (model_to_schema st g)"
  by (force simp: derived_from_store_def model_to_schema_def db_fetch_assigned_def
      db_fetch_assigned_packages_def image_iff)

lemma db_fetch_one_Some: "db_fetch_one st i = Some g \<Longrightarrow> g_id g = i \<and> g \<in> set (groups_tbl st)"
  by (auto simp: db_fetch_one_def find_Some_iff)







lemma change_assigned_success:
  "snd (fst (change_assigned i instructions st)) = 200 \<Longrightarrow>
     db_fetch_one st i \<noteq> None \<and> membership_checks_pass st i instructions"
  by (auto simp: change_assigned_def db_modify_assignment_def api_error_def
      membership_checks_pass_def check_additions_None check_removals_None
      split: option.splits)

text \<open>
  The view follows the store: right after a successful membership change, \<^verbatim>\<open>fetch_one\<close>
  hands to the serialiser a group that lists every added device and no removed one.
\<close>

lemma device_lookup_Some:
  "device_lookup st a = Some d \<Longrightarrow> d \<in> set (devices_tbl st) \<and> d_id d = a"
  by (auto simp: device_lookup_def find_Some_iff)

lemma fetch_one_after_change_assigned:
  assumes ok: "snd (fst (change_assigned i instructions st)) = 200"
  shows "\<exists>s. set (add instructions) \<subseteq> set (s_devices s) \<and>
           set (remove instructions) \<inter> set (s_devices s) = {} \<and>
           fetch_one dump i (snd (change_assigned i instructions st)) =
             (case dump s of Inl e \<Rightarrow> api_error ''fetching failed'' 500
              | Inr payload \<Rightarrow> (GroupBody payload, 200))"
proof -
  let ?st' = "snd (change_assigned i instructions st)"
  let ?ds' = "set_group None (remove instructions)
      (set_group (Some i) (add instructions) (devices_tbl st))"
  from ok have present: "db_fetch_one st i \<noteq> None"
    and pass: "membership_checks_pass st i instructions"
    using change_assigned_success by blast+
  then obtain g where g: "db_fetch_one st i = Some g"
    by auto
  have adds: "check_additions st (add instructions) = None"
    using pass by (simp add: check_additions_None membership_checks_pass_def)
  have rems: "check_removals st i (remove instructions) = None"
    using pass by (simp add: check_removals_None membership_checks_pass_def)
  have st': "?st' = st\<lparr>devices_tbl := ?ds'\<rparr>"
    using g adds rems by (simp add: change_assigned_def db_modify_assignment_def)
  have resp: "fetch_one dump i ?st' =
      (case dump (model_to_schema ?st' g) of Inl e \<Rightarrow> api_error ''fetching failed'' 500
       | Inr payload \<Rightarrow> (GroupBody payload, 200))"
    using g by (simp add: st' fetch_one_def db_fetch_one_def)
  have devs: "set (s_devices (model_to_schema ?st' g)) =
      {d_id d |d. d \<in> set ?ds' \<and> d_group_id d = Some i}"
  proof -
    have "s_id (model_to_schema ?st' g) = i"
      using db_fetch_one_Some [OF g] by (simp add: model_to_schema_def)
    moreover have "devices_tbl ?st' = ?ds'"
      by (simp add: st')
    ultimately show ?thesis
      using derived_model_to_schema [of ?st' g] by (simp add: derived_from_store_def)
  qed
  have added: "a \<in> set (s_devices (model_to_schema ?st' g))"
    if a: "a \<in> set (add instructions)" for a
  proof -
    from pass a obtain d where d: "device_lookup st a = Some d" "d_group_id d = None"
      by (auto simp: membership_checks_pass_def)
    have "a \<notin> set (remove instructions)"
      using pass d by (auto simp: membership_checks_pass_def)
    moreover have "d \<in> set (devices_tbl st)" "d_id d = a"
      using device_lookup_Some [OF d(1)] by simp_all
    ultimately have "d\<lparr>d_group_id := Some i\<rparr> \<in> set ?ds'"
      using a by (force simp: set_group_def image_iff)
    moreover have "d_id (d\<lparr>d_group_id := Some i\<rparr>) = a"
      "d_group_id (d\<lparr>d_group_id := Some i\<rparr>) = Some i"
      using \<open>d_id d = a\<close> by simp_all
    ultimately show ?thesis
      unfolding devs by blast
  qed
  have removed: "r \<notin> set (s_devices (model_to_schema ?st' g))"
    if "r \<in> set (remove instructions)" for r
    unfolding devs using that by (auto simp: set_group_def split: if_splits)
  show ?thesis
    using resp added removed by auto
qed

end
